theory Spec2Isabelle
  imports Main "HOL-Library.AList"
begin

section \<open>JavaScript values\<close>

text \<open>
  Plain data as \<open>src/Database/index.js\<close> handles it: index keys, index options, index
  names, query conditions and the documents the store returns. An object is an
  association list in insertion order. Numbers are the integers.
\<close>

datatype jsval =
    JUndefined
  | JNull
  | JBool bool
  | JNum int
  | JStr string
  | JObj "(string \<times> jsval) list"
  | JArr "jsval list"

type_synonym doc = "(string \<times> jsval) list"

text \<open>What \<open>if (v)\<close>, \<open>!v\<close> and \<open>v || d\<close> test.\<close>

fun truthy :: "jsval \<Rightarrow> bool" where
  "truthy JUndefined = False"
| "truthy JNull = False"
| "truthy (JBool b) = b"
| "truthy (JNum n) = (n \<noteq> 0)"
| "truthy (JStr s) = (s \<noteq> [])"
| "truthy (JObj kvs) = True"
| "truthy (JArr xs) = True"

text \<open>The same test on an argument that is a string or was left out (\<open>undefined\<close>).\<close>

fun truthy_str :: "string option \<Rightarrow> bool" where
  "truthy_str None = False"
| "truthy_str (Some s) = (s \<noteq> [])"

text \<open>lodash's \<open>_.size\<close>: the length of a string or array, the number of own keys of
  an object, 0 for everything else.\<close>

fun size_lodash :: "jsval \<Rightarrow> nat" where
  "size_lodash (JStr s) = length s"
| "size_lodash (JArr xs) = length xs"
| "size_lodash (JObj kvs) = length kvs"
| "size_lodash v = 0"

section \<open>Errors and the store\<close>

text \<open>
  The calls the code issues to the store driver. A collection handle is identified by
  the collection's name.
\<close>

datatype call =
    Connect string
  | ListCollections
  | CreateCollection string
  | DropCollection string
  | CreateIndex string jsval jsval
  | DropIndex string jsval jsval

datatype error =
    Error string
  | TypeError string
  | InvalidArgumentException string
  | RuntimeException string
  | MongoError call
  | TransactionStartFailed

text \<open>A property read \<open>d.k\<close> on an object: a missing property reads as \<open>undefined\<close>.\<close>

definition field :: "doc \<Rightarrow> string \<Rightarrow> jsval" where
  "field d k = (case map_of d k of None \<Rightarrow> JUndefined | Some v \<Rightarrow> v)"

text \<open>A property read \<open>s.k\<close> on a string, for a key that is not a method of strings
  (the code reads \<open>keys\<close> and \<open>options\<close>): a string has its \<open>length\<close> and nothing else.\<close>

definition member_str :: "string \<Rightarrow> string \<Rightarrow> jsval" where
  "member_str s k = (if k = ''length'' then JNum (int (length s)) else JUndefined)"

datatype trx_status = Active | Committed | RolledBack

text \<open>
  The store and its driver, as far as the code can see them: the number of connections
  established so far (the next connection's identity) and the connections still
  open, the collections that exist, whether a transaction is granted and the state of
  every transaction, the calls that took effect (in order), and the calls the store
  rejects.
\<close>

record mongo =
  established :: nat
  live :: "nat list"
  collections :: "string list"
  granting :: bool
  trxs :: "trx_status list"
  calls :: "call list"
  refuses :: "call \<Rightarrow> bool"

text \<open>A call that the store rejects has no effect; one it accepts is recorded.\<close>

definition issue :: "call \<Rightarrow> mongo \<Rightarrow> (error + unit) \<times> mongo" where
  "issue c m =
     (if refuses m c then (Inl (MongoError c), m)
      else (Inr (), m\<lparr>calls := calls m @ [c]\<rparr>))"

section \<open>SchemaBuilder\<close>

record index_directive =
  keys :: jsval
  options :: doc

record SchemaBuilder =
  collection :: string
  createIndexes :: "index_directive list"
  dropIndexes :: "string list"

definition new_SchemaBuilder :: "string \<Rightarrow> SchemaBuilder" where
  "new_SchemaBuilder c = \<lparr>collection = c, createIndexes = [], dropIndexes = []\<rparr>"

text \<open>
  \<open>index (name, keys, options)\<close>. The options are an object or left out
  (\<open>options || {}\<close>); \<open>options['name'] = name\<close> replaces an existing \<open>name\<close> in place
  and appends a new one.
\<close>

definition index :: "SchemaBuilder \<Rightarrow> jsval \<Rightarrow> jsval \<Rightarrow> doc option \<Rightarrow> error + SchemaBuilder" where
  "index sb name ks opts =
     (if \<not> truthy name then
        Inl (InvalidArgumentException ''param name is required to create index'')
      else if \<not> truthy ks \<or> size_lodash ks = 0 then
        Inl (InvalidArgumentException ''param keys is required to create index'')
      else
        let opts1 = (case opts of None \<Rightarrow> [] | Some d \<Rightarrow> d);
            opts2 = AList.update ''name'' name opts1
        in Inr (sb\<lparr>createIndexes := createIndexes sb @ [\<lparr>keys = ks, options = opts2\<rparr>]\<rparr>))"

definition dropIndex :: "SchemaBuilder \<Rightarrow> string \<Rightarrow> SchemaBuilder" where
  "dropIndex sb name = sb\<lparr>dropIndexes := dropIndexes sb @ [name]\<rparr>"

text \<open>The two loops of \<open>build\<close>: each awaits one driver call per directive and stops at
  the first that fails. The second loop reads \<open>keys\<close> and \<open>options\<close> of each
  registered name.\<close>

fun build_create :: "string \<Rightarrow> index_directive list \<Rightarrow> mongo \<Rightarrow> (error + unit) \<times> mongo" where
  "build_create c [] m = (Inr (), m)"
| "build_create c (d # ds) m =
     (case issue (CreateIndex c (keys d) (JObj (options d))) m of
        (Inl e, m') \<Rightarrow> (Inl e, m')
      | (Inr u, m') \<Rightarrow> build_create c ds m')"

fun build_drop :: "string \<Rightarrow> string list \<Rightarrow> mongo \<Rightarrow> (error + unit) \<times> mongo" where
  "build_drop c [] m = (Inr (), m)"
| "build_drop c (d # ds) m =
     (case issue (DropIndex c (member_str d ''keys'') (member_str d ''options'')) m of
        (Inl e, m') \<Rightarrow> (Inl e, m')
      | (Inr u, m') \<Rightarrow> build_drop c ds m')"

definition build :: "SchemaBuilder \<Rightarrow> mongo \<Rightarrow> (error + unit) \<times> mongo" where
  "build sb m =
     (case build_create (collection sb) (createIndexes sb) m of
        (Inl e, m') \<Rightarrow> (Inl e, m')
      | (Inr u, m') \<Rightarrow> build_drop (collection sb) (dropIndexes sb) m')"

text \<open>The driver calls that \<open>build\<close> goes through, in its order: one per create
  directive, then one per registered drop.\<close>

definition planned :: "SchemaBuilder \<Rightarrow> call list" where
  "planned sb =
     map (\<lambda>d. CreateIndex (collection sb) (keys d) (JObj (options d))) (createIndexes sb)
     @ map (\<lambda>n. DropIndex (collection sb) (member_str n ''keys'') (member_str n ''options''))
         (dropIndexes sb)"

section \<open>The query builder and the libraries\<close>

text \<open>
  What reading a member of an object gives: a data value, a function (by name), one of
  the objects the code holds (a connection, a transaction, the current query builder,
  the schema interface, the prototype), or a method of the fresh query builder bound
  to that builder.
\<close>

datatype member =
    Value jsval
  | Method string
  | Connection nat
  | Transaction nat
  | Builder
  | SchemaApi
  | Prototype
  | BoundTo string

fun is_function :: "member \<Rightarrow> bool" where
  "is_function (Method f) = True"
| "is_function (BoundTo f) = True"
| "is_function v = False"

text \<open>
  Modelled from the spec: the query builder of the mquery library, which is not part
  of the sources, as far as the code touches it: the conditions (\<open>_conditions\<close>), the
  collection it is bound to, the limit and skip options, and the transaction attached
  by \<open>transacting\<close>.
\<close>

record QueryBuilder =
  qconditions :: doc
  qcollection :: "member option"
  qlimit :: "int option"
  qskip :: "int option"
  qtrx :: "nat option"

text \<open>\<open>mquery ()\<close>: a new builder with no condition, bound to nothing;
  \<open>transacting\<close> attaches a transaction to a builder.\<close>

definition new_mquery :: QueryBuilder where
  "new_mquery = \<lparr>qconditions = [], qcollection = None, qlimit = None, qskip = None, qtrx = None\<rparr>"

definition transacting :: "QueryBuilder \<Rightarrow> nat \<Rightarrow> QueryBuilder" where
  "transacting q t = q\<lparr>qtrx := Some t\<rparr>"

text \<open>
  What the code takes from outside \<open>src/Database/index.js\<close>, as parameters: the members
  a new query builder has under each name, the documents of a collection that match
  given conditions (in the order the store returns them), what the driver's
  \<open>aggregate\<close> answers for a collection handle and a pipeline, and \<open>makePaginateMeta\<close>
  of \<open>lib/util\<close>.
\<close>

record library =
  member_mquery :: "string \<Rightarrow> member"
  matching :: "member \<Rightarrow> doc \<Rightarrow> error + doc list"
  aggregate_driver :: "member \<Rightarrow> jsval list \<Rightarrow> error + doc list"
  makePaginateMeta :: "jsval \<Rightarrow> int option \<Rightarrow> int \<Rightarrow> doc"

text \<open>
  Modelled from the spec: \<open>find\<close> of the query builder with its \<open>skip\<close> and \<open>limit\<close>
  options. It fetches the documents of the bound collection that match the
  conditions, skipping the first \<open>skip\<close> of them and returning at most \<open>limit\<close> of the
  rest; an option that was not set does nothing.
\<close>

fun skipped :: "int option \<Rightarrow> doc list \<Rightarrow> doc list" where
  "skipped None ds = ds"
| "skipped (Some k) ds = drop (nat k) ds"

fun limited :: "int option \<Rightarrow> doc list \<Rightarrow> doc list" where
  "limited None ds = ds"
| "limited (Some k) ds = take (nat k) ds"

definition find_mquery :: "library \<Rightarrow> QueryBuilder \<Rightarrow> error + doc list" where
  "find_mquery lib q =
     (case qcollection q of
        None \<Rightarrow> Inl (Error ''find: no collection'')
      | Some c \<Rightarrow>
         (case matching lib c (qconditions q) of
            Inl e \<Rightarrow> Inl e
          | Inr ds \<Rightarrow> Inr (limited (qlimit q) (skipped (qskip q) ds))))"

section \<open>Database\<close>

record config =
  client :: string
  user :: "string option"
  password :: "string option"
  host :: string
  port :: string
  database :: string

record Database =
  connectionString :: string
  connection :: "nat option"
  globalTrx :: "nat option"
  mquery :: QueryBuilder
  collectionName :: "string option"

definition security :: "config \<Rightarrow> string" where
  "security cfg =
     (if truthy_str (user cfg) \<and> truthy_str (password cfg) then
        the (user cfg) @ '':'' @ the (password cfg) @ ''@''
      else if truthy_str (user cfg) then the (user cfg) @ ''@''
      else [])"

definition new_Database :: "config \<Rightarrow> error + Database" where
  "new_Database cfg =
     (if client cfg \<noteq> ''mongodb'' then Inl (RuntimeException ''invalid connection type'')
      else Inr \<lparr>connectionString =
                  ''mongodb://'' @ security cfg @ host cfg @ '':'' @ port cfg @ ''/'' @ database cfg,
                connection = None, globalTrx = None, mquery = new_mquery,
                collectionName = None\<rparr>)"

subsection \<open>The connection\<close>

text \<open>\<open>MongoClient.connect\<close>: a connection the store accepts is new and open.\<close>

definition MongoClient_connect :: "string \<Rightarrow> mongo \<Rightarrow> (error + nat) \<times> mongo" where
  "MongoClient_connect cs m =
     (case issue (Connect cs) m of
        (Inl e, m') \<Rightarrow> (Inl e, m')
      | (Inr u, m') \<Rightarrow>
          (Inr (established m'),
           m'\<lparr>established := Suc (established m'), live := live m' @ [established m']\<rparr>))"

definition connect :: "Database \<Rightarrow> mongo \<Rightarrow> (error + nat) \<times> Database \<times> mongo" where
  "connect db m =
     (case connection db of
        Some c \<Rightarrow> (Inr c, db, m)
      | None \<Rightarrow>
         (case MongoClient_connect (connectionString db) m of
            (Inl e, m') \<Rightarrow> (Inl e, db, m')
          | (Inr c, m') \<Rightarrow> (Inr c, db\<lparr>connection := Some c\<rparr>, m')))"

text \<open>\<open>close\<close> closes the connection the handle holds and keeps the reference.\<close>

definition close :: "Database \<Rightarrow> mongo \<Rightarrow> (error + unit) \<times> Database \<times> mongo" where
  "close db m =
     (case connection db of
        None \<Rightarrow> (Inl (TypeError ''Cannot read property close of null''), db, m)
      | Some c \<Rightarrow> (Inr (), db, m\<lparr>live := removeAll c (live m)\<rparr>))"

text \<open>\<open>N\<close> calls of \<open>connect\<close>, one after the other, with the result of each.\<close>

fun connect_times :: "nat \<Rightarrow> Database \<Rightarrow> mongo \<Rightarrow> (error + nat) list \<times> Database \<times> mongo" where
  "connect_times 0 db m = ([], db, m)"
| "connect_times (Suc n) db m =
     (case connect db m of
        (r, db', m') \<Rightarrow>
          (case connect_times n db' m' of (rs, db'', m'') \<Rightarrow> (r # rs, db'', m'')))"

definition setCollection :: "Database \<Rightarrow> string \<Rightarrow> Database" where
  "setCollection db n = db\<lparr>collectionName := Some n\<rparr>"

definition query :: "Database \<Rightarrow> Database" where
  "query db = db\<lparr>mquery := new_mquery\<rparr>"

definition conditions :: "Database \<Rightarrow> doc" where
  "conditions db = qconditions (mquery db)"

subsection \<open>The schema interface\<close>

text \<open>
  \<open>db.listCollections ().toArray ()\<close> answers one description object per collection,
  of which the code reads \<open>name\<close>; \<open>db.createCollection\<close> and \<open>db.dropCollection\<close>
  change the collections that exist.
\<close>

definition collection_info :: "string \<Rightarrow> doc" where
  "collection_info n = [(''name'', JStr n), (''type'', JStr ''collection'')]"

definition listCollections :: "mongo \<Rightarrow> (error + doc list) \<times> mongo" where
  "listCollections m =
     (case issue ListCollections m of
        (Inl e, m') \<Rightarrow> (Inl e, m')
      | (Inr u, m') \<Rightarrow> (Inr (map collection_info (collections m')), m'))"

definition db_createCollection :: "string \<Rightarrow> mongo \<Rightarrow> (error + string) \<times> mongo" where
  "db_createCollection n m =
     (case issue (CreateCollection n) m of
        (Inl e, m') \<Rightarrow> (Inl e, m')
      | (Inr u, m') \<Rightarrow>
          (Inr n, m'\<lparr>collections :=
                       (if n \<in> set (collections m') then collections m'
                        else collections m' @ [n])\<rparr>))"

definition db_dropCollection :: "string \<Rightarrow> mongo \<Rightarrow> (error + unit) \<times> mongo" where
  "db_dropCollection n m =
     (case issue (DropCollection n) m of
        (Inl e, m') \<Rightarrow> (Inl e, m')
      | (Inr u, m') \<Rightarrow> (Inr (), m'\<lparr>collections := removeAll n (collections m')\<rparr>))"

text \<open>\<open>Array.prototype.includes\<close> with a string to look for: an element is the same
  value as a string only if it is that string.\<close>

definition includes_js :: "jsval list \<Rightarrow> string \<Rightarrow> bool" where
  "includes_js xs s = (JStr s \<in> set xs)"

text \<open>lodash's \<open>_.find\<close> with the predicate \<open>collection.name === collectionName\<close>: the
  first element that satisfies it, or \<open>undefined\<close>.\<close>

fun find_named :: "doc list \<Rightarrow> string \<Rightarrow> jsval" where
  "find_named [] n = JUndefined"
| "find_named (c # cs) n = (if field c ''name'' = JStr n then JObj c else find_named cs n)"

text \<open>The part that \<open>createCollection\<close> and \<open>createCollectionIfNotExists\<close> share: create
  the collection, hand a new schema builder to the callback, build.\<close>

definition create_and_build ::
  "string \<Rightarrow> (SchemaBuilder \<Rightarrow> error + SchemaBuilder) \<Rightarrow> mongo \<Rightarrow> (error + unit) \<times> mongo" where
  "create_and_build n callback m =
     (case db_createCollection n m of
        (Inl e, m') \<Rightarrow> (Inl e, m')
      | (Inr c, m') \<Rightarrow>
         (case callback (new_SchemaBuilder c) of
            Inl e \<Rightarrow> (Inl e, m')
          | Inr sb \<Rightarrow> build sb m'))"

definition createCollection ::
  "Database \<Rightarrow> mongo \<Rightarrow> string \<Rightarrow> (SchemaBuilder \<Rightarrow> error + SchemaBuilder)
     \<Rightarrow> (error + unit) \<times> Database \<times> mongo" where
  "createCollection db m n callback =
     (case connect db m of
        (Inl e, db', m') \<Rightarrow> (Inl e, db', m')
      | (Inr c, db', m') \<Rightarrow>
         (case create_and_build n callback m' of (r, m'') \<Rightarrow> (r, db', m'')))"

definition createCollectionIfNotExists ::
  "Database \<Rightarrow> mongo \<Rightarrow> string \<Rightarrow> (SchemaBuilder \<Rightarrow> error + SchemaBuilder)
     \<Rightarrow> (error + unit) \<times> Database \<times> mongo" where
  "createCollectionIfNotExists db m n callback =
     (case connect db m of
        (Inl e, db', m') \<Rightarrow> (Inl e, db', m')
      | (Inr c, db', m') \<Rightarrow>
         (case listCollections m' of
            (Inl e, m'') \<Rightarrow> (Inl e, db', m'')
          | (Inr cs, m'') \<Rightarrow>
              if \<not> includes_js (map JObj cs) n then
                (case create_and_build n callback m'' of (r, m3) \<Rightarrow> (r, db', m3))
              else (Inr (), db', m'')))"

definition dropCollection ::
  "Database \<Rightarrow> mongo \<Rightarrow> string \<Rightarrow> (error + unit) \<times> Database \<times> mongo" where
  "dropCollection db m n =
     (case connect db m of
        (Inl e, db', m') \<Rightarrow> (Inl e, db', m')
      | (Inr c, db', m') \<Rightarrow>
         (case db_dropCollection n m' of (r, m'') \<Rightarrow> (r, db', m'')))"

definition dropCollectionIfExists ::
  "Database \<Rightarrow> mongo \<Rightarrow> string \<Rightarrow> (error + unit) \<times> Database \<times> mongo" where
  "dropCollectionIfExists db m n =
     (case connect db m of
        (Inl e, db', m') \<Rightarrow> (Inl e, db', m')
      | (Inr c, db', m') \<Rightarrow>
         (case listCollections m' of
            (Inl e, m'') \<Rightarrow> (Inl e, db', m'')
          | (Inr cs, m'') \<Rightarrow>
              if includes_js (map JObj cs) n then
                (case db_dropCollection n m'' of (r, m3) \<Rightarrow> (r, db', m3))
              else (Inr (), db', m'')))"

definition hasCollection ::
  "Database \<Rightarrow> mongo \<Rightarrow> string \<Rightarrow> (error + bool) \<times> Database \<times> mongo" where
  "hasCollection db m n =
     (case connect db m of
        (Inl e, db', m') \<Rightarrow> (Inl e, db', m')
      | (Inr c, db', m') \<Rightarrow>
         (case listCollections m' of
            (Inl e, m'') \<Rightarrow> (Inl e, db', m'')
          | (Inr cs, m'') \<Rightarrow>
             (Inr (find_named cs n \<noteq> JNull), db', m'')))"

subsection \<open>Transactions\<close>

text \<open>A promise is pending, resolved with a value or rejected with an error. A pending
  promise that nothing can settle any more stays pending.\<close>

datatype 'a promise = Pending | Resolved 'a | Rejected error

text \<open>
  Modelled from the spec: the query-builder library's \<open>transaction (callback)\<close>, which
  is not part of the sources. It negotiates a transaction with the store. When the
  store grants one, the callback is called with the new, active transaction. When the
  store rejects it, the negotiation fails with \<open>TransactionStartFailed\<close>: the promise
  that \<open>transaction\<close> returned is rejected. Whether the library still runs the callback
  then is said nowhere; here it does not, as there is no transaction to hand over.
  The result is the transaction handed to the callback, if it was called, and the
  rejection of the returned promise, if any.
\<close>

definition transaction :: "mongo \<Rightarrow> (nat option \<times> error option) \<times> mongo" where
  "transaction m =
     (if granting m then ((Some (length (trxs m)), None), m\<lparr>trxs := trxs m @ [Active]\<rparr>)
      else ((None, Some TransactionStartFailed), m))"

text \<open>
  \<open>beginTransaction\<close>: the promise it returns is resolved by the callback only, and
  \<open>.catch (() => { })\<close> discards the rejection of \<open>transaction\<close>'s promise; \<open>reject\<close>
  is never called.
\<close>

definition beginTransaction :: "Database \<Rightarrow> mongo \<Rightarrow> nat promise \<times> mongo" where
  "beginTransaction db m =
     (case transaction m of
        ((Some trx, rejection), m') \<Rightarrow> (Resolved trx, m')
      | ((None, rejection), m') \<Rightarrow> (Pending, m'))"





subsection \<open>The proxy\<close>

text \<open>A property key is a symbol or a string.\<close>

datatype propkey = Symbol string | Name string

fun is_symbol :: "propkey \<Rightarrow> bool" where
  "is_symbol (Symbol s) = True"
| "is_symbol (Name s) = False"

text \<open>The methods of class \<open>Database\<close> and the members every object inherits.\<close>

definition Database_methods :: "string list" where
  "Database_methods =
     [''constructor'', ''connect'', ''collection'', ''setCollection'', ''raw'',
      ''beginTransaction'', ''beginGlobalTransaction'', ''rollbackGlobalTransaction'',
      ''commitGlobalTransaction'', ''query'', ''clone'', ''close'', ''find'', ''findOne'',
      ''first'', ''update'', ''delete'', ''paginate'', ''insert'', ''aggregate'']"

definition Object_methods :: "string list" where
  "Object_methods =
     [''hasOwnProperty'', ''isPrototypeOf'', ''propertyIsEnumerable'', ''toLocaleString'',
      ''toString'', ''valueOf'', ''__defineGetter__'', ''__defineSetter__'',
      ''__lookupGetter__'', ''__lookupSetter__'']"

text \<open>
  \<open>target[name]\<close>: the object's own fields (\<open>collectionName\<close> exists only once
  \<open>setCollection\<close> has run), the getters \<open>schema\<close> and \<open>conditions\<close>, the methods of
  the class, and what \<open>Object.prototype\<close> gives. No member has a symbol for its key.
\<close>

fun target_member :: "Database \<Rightarrow> propkey \<Rightarrow> member" where
  "target_member db (Symbol s) = Value JUndefined"
| "target_member db (Name s) =
     (if s = ''connectionString'' then Value (JStr (connectionString db))
      else if s = ''connection'' then
        (case connection db of None \<Rightarrow> Value JNull | Some c \<Rightarrow> Connection c)
      else if s = ''_globalTrx'' then
        (case globalTrx db of None \<Rightarrow> Value JNull | Some t \<Rightarrow> Transaction t)
      else if s = ''mquery'' then Builder
      else if s = ''collectionName'' then
        (case collectionName db of None \<Rightarrow> Value JUndefined | Some n \<Rightarrow> Value (JStr n))
      else if s = ''schema'' then SchemaApi
      else if s = ''conditions'' then Value (JObj (conditions db))
      else if s \<in> set Database_methods then Method s
      else if s \<in> set Object_methods then Method s
      else if s = ''__proto__'' then Prototype
      else Value JUndefined)"

text \<open>The name of a key inside the message of the error (only strings get there).\<close>

fun prop_name :: "propkey \<Rightarrow> string" where
  "prop_name (Symbol s) = s"
| "prop_name (Name s) = s"

text \<open>
  \<open>proxyHandler.get\<close>. The result is the member or the error thrown, and the handle
  after the access: \<open>target.query ()\<close> replaces the handle's query builder, and the
  function returned is bound to that new builder.
\<close>

definition get :: "library \<Rightarrow> Database \<Rightarrow> propkey \<Rightarrow> (error + member) \<times> Database" where
  "get lib target name =
     (if is_symbol name \<or> name = Name ''inspect'' then (Inr (target_member target name), target)
      else if target_member target name \<noteq> Value JUndefined then
        (Inr (target_member target name), target)
      else
        let target1 = query target in
        if \<not> is_function (member_mquery lib (prop_name name)) then
          (Inl (Error (''Database.'' @ prop_name name @ '' is not a function'')), target1)
        else
          let target2 =
                (case globalTrx target1 of
                   Some trx \<Rightarrow> target1\<lparr>mquery := transacting (mquery target1) trx\<rparr>
                 | None \<Rightarrow> target1)
          in (Inr (BoundTo (prop_name name)), target2))"

subsection \<open>Aggregation and pagination\<close>

text \<open>String concatenation \<open>'$' + v\<close> with a string or \<open>undefined\<close>.\<close>

fun dollar :: "string option \<Rightarrow> string" where
  "dollar None = ''$undefined''"
| "dollar (Some s) = ''$'' @ s"

text \<open>The \<open>switch\<close> of \<open>aggregate\<close> on the aggregator's name.\<close>

definition group_stage :: "string \<Rightarrow> string option \<Rightarrow> string option \<Rightarrow> doc" where
  "group_stage aggregator key groupBy =
     (let g = [(''_id'', JStr (dollar groupBy))] in
      if aggregator = ''count'' then AList.update aggregator (JObj [(''$sum'', JNum 1)]) g
      else if aggregator = ''max'' then AList.update aggregator (JObj [(''$max'', JStr (dollar key))]) g
      else if aggregator = ''min'' then AList.update aggregator (JObj [(''$min'', JStr (dollar key))]) g
      else if aggregator = ''sum'' then AList.update aggregator (JObj [(''$sum'', JStr (dollar key))]) g
      else if aggregator = ''avg'' then AList.update aggregator (JObj [(''$avg'', JStr (dollar key))]) g
      else g)"

text \<open>
  Inside a method \<open>this\<close> is the proxy, so \<open>this.collectionName\<close> goes through
  \<open>proxyHandler.get\<close>: before \<open>setCollection\<close> the field does not exist and the read is
  a pass-through access.
\<close>

definition aggregate ::
  "library \<Rightarrow> Database \<Rightarrow> mongo \<Rightarrow> string \<Rightarrow> string option \<Rightarrow> string option
     \<Rightarrow> (error + jsval) \<times> Database \<times> mongo" where
  "aggregate lib db m aggregator key groupBy =
     (case connect db m of
        (Inl e, db1, m1) \<Rightarrow> (Inl e, db1, m1)
      | (Inr c, db1, m1) \<Rightarrow>
         (case get lib db1 (Name ''collectionName'') of
            (Inl e, db2) \<Rightarrow> (Inl e, db2, m1)
          | (Inr coll, db2) \<Rightarrow>
             (let match = JObj (conditions db2);
                  grp = JObj (group_stage aggregator key groupBy)
              in case aggregate_driver lib coll [JObj [(''$match'', match)], JObj [(''$group'', grp)]] of
                   Inl err \<Rightarrow> (Inl err, db2, m1)
                 | Inr result \<Rightarrow>
                     (Inr (if truthy_str groupBy then JArr (map JObj result)
                           else if result \<noteq> [] then field (hd result) aggregator
                           else JNull),
                      db2, m1))))"

text \<open>\<open>page || 1\<close> on a page that is a number or left out.\<close>

fun page_or_1 :: "int option \<Rightarrow> int" where
  "page_or_1 None = 1"
| "page_or_1 (Some p) = (if p = 0 then 1 else p)"

definition paginate ::
  "library \<Rightarrow> Database \<Rightarrow> mongo \<Rightarrow> int option \<Rightarrow> int \<Rightarrow> (error + doc) \<times> Database \<times> mongo" where
  "paginate lib db m page lim =
     (case connect db m of
        (Inl e, db1, m1) \<Rightarrow> (Inl e, db1, m1)
      | (Inr c, db1, m1) \<Rightarrow>
         (case get lib db1 (Name ''collectionName'') of
            (Inl e, db2) \<Rightarrow> (Inl e, db2, m1)
          | (Inr coll, db2) \<Rightarrow>
             (case aggregate lib db2 m1 ''count'' None None of
                (Inl e, db3, m3) \<Rightarrow> (Inl e, db3, m3)
              | (Inr countByQuery, db3, m3) \<Rightarrow>
                 (let q = (mquery db3)\<lparr>qcollection := Some coll, qlimit := Some lim,
                                        qskip := Some (page_or_1 page * lim)\<rparr>;
                      db4 = db3\<lparr>mquery := q\<rparr>
                  in case find_mquery lib q of
                       Inl e \<Rightarrow> (Inl e, db4, m3)
                     | Inr rows \<Rightarrow>
                         (Inr (AList.update ''data'' (JArr (map JObj rows))
                                 (makePaginateMeta lib countByQuery page lim)),
                          db4, m3)))))"


section \<open>Concrete stores, libraries and handles\<close>

text \<open>A store with no collection that rejects nothing and grants transactions.\<close>

definition store0 :: mongo where
  "store0 = \<lparr>established = 0, live = [], collections = [], granting = True, trxs = [],
              calls = [], refuses = (\<lambda>c. False)\<rparr>"

text \<open>
  A library whose query builder has the usual methods, whose collections hold 25
  documents (none in the collection \<open>empty\<close>), all matching, whose \<open>aggregate\<close>
  answers nothing on the collection \<open>empty\<close>, one
  group of 25 documents to the count pipeline without conditions and two groups
  otherwise, and whose pagination metadata list the total, the page and the limit.
\<close>

definition lib0 :: library where
  "lib0 = \<lparr>member_mquery =
              (\<lambda>s. if s \<in> set [''where'', ''find'', ''findOne'', ''limit'', ''skip'', ''sort'',
                                  ''update'', ''remove'', ''transacting'', ''collection'']
                    then Method s else Value JUndefined),
            matching =
              (\<lambda>c k. if c = Value (JStr ''empty'') then Inr []
                      else Inr (map (\<lambda>i. [(''_id'', JNum (int i))]) [1..<26])),
            aggregate_driver =
              (\<lambda>c p. if c = Value (JStr ''empty'') then Inr []
                      else if p = [JObj [(''$match'', JObj [])],
                                   JObj [(''$group'', JObj [(''_id'', JStr ''$undefined''),
                                                           (''count'', JObj [(''$sum'', JNum 1)])])]]
                      then Inr [[(''_id'', JNull), (''count'', JNum 25)]]
                      else Inr [[(''_id'', JNum 1), (''sum'', JNum 8)], [(''_id'', JNum 2), (''sum'', JNum 4)]]),
            makePaginateMeta =
              (\<lambda>total page lim. [(''total'', total),
                                 (''page'', case page of None \<Rightarrow> JUndefined | Some p \<Rightarrow> JNum p),
                                 (''perPage'', JNum lim)])\<rparr>"

definition config0 :: config where
  "config0 = \<lparr>client = ''mongodb'', user = None, password = None, host = ''localhost'',
               port = ''27017'', database = ''test''\<rparr>"

text \<open>The callback \<open>sb => sb.index ('by_email', { email: 1 })\<close>.\<close>

definition by_email :: "SchemaBuilder \<Rightarrow> error + SchemaBuilder" where
  "by_email sb = index sb (JStr ''by_email'') (JObj [(''email'', JNum 1)]) None"

text \<open>A schema builder with one index to create and one to drop, and a store that
  rejects the drop.\<close>

definition sb0 :: SchemaBuilder where
  "sb0 = \<lparr>collection = ''users'',
           createIndexes = [\<lparr>keys = JObj [(''email'', JNum 1)], options = [(''name'', JStr ''by_email'')]\<rparr>],
           dropIndexes = [''by_age'']\<rparr>"

definition store_no_drop :: mongo where
  "store_no_drop = \<lparr>established = 0, live = [], collections = [''users''], granting = True,
                     trxs = [], calls = [],
                     refuses = (\<lambda>c. c = DropIndex ''users'' JUndefined JUndefined)\<rparr>"


text \<open>The handle \<open>new Database (config0)\<close> gives.\<close>

definition db0 :: Database where
  "db0 = \<lparr>connectionString = ''mongodb://localhost:27017/test'', connection = None,
           globalTrx = None, mquery = new_mquery, collectionName = None\<rparr>"


section \<open>Helper lemmas\<close>

lemma issue_accepted: "\<not> refuses m c \<Longrightarrow> issue c m = (Inr (), m\<lparr>calls := calls m @ [c]\<rparr>)"
  by (simp add: issue_def)

lemma connect_connected: "connection db = Some c \<Longrightarrow> connect db m = (Inr c, db, m)"
  by (simp add: connect_def)

lemma connect_fresh:
  "connection db = None \<Longrightarrow> \<not> refuses m (Connect (connectionString db)) \<Longrightarrow>
   connect db m =
     (Inr (established m), db\<lparr>connection := Some (established m)\<rparr>,
      m\<lparr>calls := calls m @ [Connect (connectionString db)],
        established := Suc (established m), live := live m @ [established m]\<rparr>)"
  by (simp add: connect_def MongoClient_connect_def issue_accepted)

lemma connect_times_connected:
  "connection db = Some c \<Longrightarrow> connect_times n db m = (replicate n (Inr c), db, m)"
  by (induction n) (simp_all add: connect_connected)

lemma connect_result:
  "connect db m = (Inr c, db1, m1) \<Longrightarrow>
     connection db1 = Some c \<and> collectionName db1 = collectionName db
     \<and> mquery db1 = mquery db \<and> globalTrx db1 = globalTrx db"
  by (auto simp: connect_def split: option.splits prod.splits sum.splits)

lemma find_named_infos:
  "find_named (map collection_info cs) n =
     (if n \<in> set cs then JObj (collection_info n) else JUndefined)"
  by (induction cs) (auto simp: collection_info_def field_def)

lemma includes_js_infos: "\<not> includes_js (map JObj cs) n"
  by (auto simp: includes_js_def)









lemma get_collectionName:
  "collectionName db = Some n \<Longrightarrow> get lib db (Name ''collectionName'') = (Inr (Value (JStr n)), db)"
  by (simp add: get_def)

lemma aggregate_answered:
  assumes conn: "connect db m = (Inr c, db1, m1)"
    and coll: "get lib db1 (Name ''collectionName'') = (Inr h, db2)"
    and drv: "aggregate_driver lib h
               [JObj [(''$match'', JObj (conditions db2))],
                JObj [(''$group'', JObj (group_stage aggregator key groupBy))]] = Inr result"
  shows "aggregate lib db m aggregator key groupBy =
           (Inr (if truthy_str groupBy then JArr (map JObj result)
                 else if result \<noteq> [] then field (hd result) aggregator else JNull), db2, m1)"
  by (simp add: aggregate_def conn coll drv)

lemma build_create_prefix:
  "\<exists>k\<le>length ds. snd (build_create c ds m) =
        m\<lparr>calls := calls m @ take k (map (\<lambda>d. CreateIndex c (keys d) (JObj (options d))) ds)\<rparr>
      \<and> (fst (build_create c ds m) = Inr () \<longleftrightarrow> k = length ds \<and> (\<forall>d\<in>set ds. \<not> refuses m (CreateIndex c (keys d) (JObj (options d)))))"
proof (induction ds arbitrary: m)
  case Nil
  then show ?case by simp
next
  case (Cons d ds)
  let ?c = "CreateIndex c (keys d) (JObj (options d))"
  show ?case
  proof (cases "refuses m ?c")
    case True
    then have "build_create c (d # ds) m = (Inl (MongoError ?c), m)"
      by (simp add: issue_def)
    then show ?thesis using True by (intro exI [of _ 0]) simp
  next
    case False
    let ?m = "m\<lparr>calls := calls m @ [?c]\<rparr>"
    from False have b: "build_create c (d # ds) m = build_create c ds ?m"
      by (simp add: issue_def)
    from Cons.IH [of ?m] obtain k where k: "k \<le> length ds"
      "snd (build_create c ds ?m) =
        ?m\<lparr>calls := calls ?m @ take k (map (\<lambda>d. CreateIndex c (keys d) (JObj (options d))) ds)\<rparr>"
      "fst (build_create c ds ?m) = Inr () \<longleftrightarrow> k = length ds \<and> (\<forall>d\<in>set ds. \<not> refuses ?m (CreateIndex c (keys d) (JObj (options d))))"
      by blast
    show ?thesis
      using k False by (intro exI [of _ "Suc k"]) (simp add: b del: build_create.simps build_drop.simps)
  qed
qed

lemma build_drop_prefix:
  "\<exists>k\<le>length ds. snd (build_drop c ds m) =
        m\<lparr>calls := calls m @ take k (map (\<lambda>n. DropIndex c (member_str n ''keys'') (member_str n ''options'')) ds)\<rparr>
      \<and> (fst (build_drop c ds m) = Inr () \<longleftrightarrow> k = length ds \<and> (\<forall>n\<in>set ds. \<not> refuses m (DropIndex c (member_str n ''keys'') (member_str n ''options''))))"
proof (induction ds arbitrary: m)
  case Nil
  then show ?case by simp
next
  case (Cons d ds)
  let ?c = "DropIndex c (member_str d ''keys'') (member_str d ''options'')"
  show ?case
  proof (cases "refuses m ?c")
    case True
    then have "build_drop c (d # ds) m = (Inl (MongoError ?c), m)"
      by (simp add: issue_def)
    then show ?thesis using True by (intro exI [of _ 0]) simp
  next
    case False
    let ?m = "m\<lparr>calls := calls m @ [?c]\<rparr>"
    from False have b: "build_drop c (d # ds) m = build_drop c ds ?m"
      by (simp add: issue_def)
    from Cons.IH [of ?m] obtain k where k: "k \<le> length ds"
      "snd (build_drop c ds ?m) =
        ?m\<lparr>calls := calls ?m @ take k (map (\<lambda>n. DropIndex c (member_str n ''keys'') (member_str n ''options'')) ds)\<rparr>"
      "fst (build_drop c ds ?m) = Inr () \<longleftrightarrow> k = length ds \<and> (\<forall>n\<in>set ds. \<not> refuses ?m (DropIndex c (member_str n ''keys'') (member_str n ''options'')))"
      by blast
    show ?thesis
      using k False by (intro exI [of _ "Suc k"]) (simp add: b del: build_create.simps build_drop.simps)
  qed
qed

text \<open>The fixtures at work: the handle with the collection \<open>users\<close> set, connected to
  the empty store.\<close>

lemma new_Database_config0: "new_Database config0 = Inr db0"
  by (simp add: new_Database_def config0_def db0_def security_def)

lemma connect_users:
  "connect (setCollection db0 c) store0 =
     (Inr 0, (setCollection db0 c)\<lparr>connection := Some 0\<rparr>,
      store0\<lparr>calls := [Connect ''mongodb://localhost:27017/test''], established := Suc 0,
             live := [0]\<rparr>)"
  by (simp add: connect_def MongoClient_connect_def issue_def setCollection_def db0_def store0_def)

lemma get_users:
  "get lib ((setCollection db0 c)\<lparr>connection := Some 0\<rparr>) (Name ''collectionName'')
     = (Inr (Value (JStr c)), (setCollection db0 c)\<lparr>connection := Some 0\<rparr>)"
  by (rule get_collectionName) (simp add: setCollection_def)

section \<open>Properties of the schema builder\<close>

text \<open>
  C8. \<open>index (name, keys, options)\<close> fails with the invalid-argument exception when
  the name is empty or the keys are empty (or either is missing), and then registers
  nothing; otherwise it registers exactly one create-index directive, appended after
  those already registered, whose options carry the given name, and changes nothing
  else.
\<close>

theorem index_registers_or_rejects:
  "(\<not> truthy name \<or> \<not> truthy ks \<or> size_lodash ks = 0 \<longrightarrow>
      (\<exists>msg. index sb name ks opts = Inl (InvalidArgumentException msg)))
   \<and> (truthy name \<and> truthy ks \<and> size_lodash ks \<noteq> 0 \<longrightarrow>
      (\<exists>d. index sb name ks opts = Inr (sb\<lparr>createIndexes := createIndexes sb @ [d]\<rparr>)
         \<and> keys d = ks
         \<and> map_of (options d) ''name'' = Some name))"
proof (intro conjI impI)
  assume "\<not> truthy name \<or> \<not> truthy ks \<or> size_lodash ks = 0"
  then show "\<exists>msg. index sb name ks opts = Inl (InvalidArgumentException msg)"
    by (auto simp: index_def)
next
  assume ok: "truthy name \<and> truthy ks \<and> size_lodash ks \<noteq> 0"
  define d where "d = \<lparr>keys = ks,
    options = AList.update ''name'' name (case opts of None \<Rightarrow> [] | Some o1 \<Rightarrow> o1)\<rparr>"
  have "index sb name ks opts = Inr (sb\<lparr>createIndexes := createIndexes sb @ [d]\<rparr>)"
    using ok by (simp add: index_def d_def)
  moreover have "keys d = ks"
    by (simp add: d_def)
  moreover have "map_of (options d) ''name'' = Some name"
    by (simp add: d_def update_conv')
  ultimately show "\<exists>d. index sb name ks opts = Inr (sb\<lparr>createIndexes := createIndexes sb @ [d]\<rparr>)
         \<and> keys d = ks \<and> map_of (options d) ''name'' = Some name"
    by blast
qed

theorem index_registers_or_rejects_witness:
  "(\<exists>msg. index (new_SchemaBuilder ''users'') (JStr []) (JObj [(''email'', JNum 1)]) None
            = Inl (InvalidArgumentException msg))
   \<and> (\<exists>msg. index (new_SchemaBuilder ''users'') (JStr ''by_email'') (JObj []) None
            = Inl (InvalidArgumentException msg))
   \<and> (\<exists>d. index (new_SchemaBuilder ''users'') (JStr ''by_email'') (JObj [(''email'', JNum 1)]) None
            = Inr ((new_SchemaBuilder ''users'')
                 \<lparr>createIndexes := createIndexes (new_SchemaBuilder ''users'') @ [d]\<rparr>)
         \<and> keys d = JObj [(''email'', JNum 1)]
         \<and> map_of (options d) ''name'' = Some (JStr ''by_email''))"
  using index_registers_or_rejects [of "JStr []" "JObj [(''email'', JNum 1)]" "new_SchemaBuilder ''users''" None]
    index_registers_or_rejects [of "JStr ''by_email''" "JObj []" "new_SchemaBuilder ''users''" None]
    index_registers_or_rejects [of "JStr ''by_email''" "JObj [(''email'', JNum 1)]" "new_SchemaBuilder ''users''" None]
  by simp

section \<open>Properties of the schema interface\<close>

text \<open>
  C7 (the code departs from the claim). \<open>dropIndex\<close> registers the name itself, and
  \<open>build\<close> reads \<open>keys\<close> and \<open>options\<close> of that name: for the builder on which only
  \<open>dropIndex ('by_email')\<close> was called, the one drop-index call that \<open>build\<close> issues
  carries \<open>undefined\<close> twice and not the registered name.
\<close>

theorem build_drops_without_name:
  "calls (snd (build (dropIndex (new_SchemaBuilder ''users'') ''by_email'') store0))
     = [DropIndex ''users'' JUndefined JUndefined]"
  by (simp add: build_def dropIndex_def new_SchemaBuilder_def store0_def issue_def member_str_def)

text \<open>
  C9 (the code departs from the claim). \<open>createCollectionIfNotExists\<close> looks for the
  name among the description objects that the enumeration returns, where no string is:
  on a store that already has the collection \<open>users\<close> it still issues the
  create-collection call, runs the callback and builds its index.
\<close>

theorem createCollectionIfNotExists_creates_existing:
  "calls (snd (snd (createCollectionIfNotExists db0 (store0\<lparr>collections := [''users'']\<rparr>)
                      ''users'' by_email)))
     = [Connect ''mongodb://localhost:27017/test'', ListCollections, CreateCollection ''users'',
        CreateIndex ''users'' (JObj [(''email'', JNum 1)]) (JObj [(''name'', JStr ''by_email'')])]"
  by (simp add: createCollectionIfNotExists_def connect_def MongoClient_connect_def db0_def
      store0_def issue_def listCollections_def includes_js_def collection_info_def
      create_and_build_def db_createCollection_def new_SchemaBuilder_def by_email_def index_def
      build_def)

text \<open>
  Whatever the store rejects, \<open>build\<close> changes the store only by the driver calls it
  got through, which are a prefix of the planned ones (every create directive in
  registration order, then one drop call per registered drop, in registration
  order): nothing applied is taken back. It succeeds exactly when the store rejects
  none of them, and then all of them were issued.
\<close>

theorem build_in_order_no_rollback:
  "\<exists>k\<le>length (planned sb).
      snd (build sb m) = m\<lparr>calls := calls m @ take k (planned sb)\<rparr>
      \<and> (fst (build sb m) = Inr () \<longleftrightarrow> k = length (planned sb) \<and> (\<forall>c\<in>set (planned sb). \<not> refuses m c))"
proof -
  let ?cs = "map (\<lambda>d. CreateIndex (collection sb) (keys d) (JObj (options d))) (createIndexes sb)"
  let ?ds = "map (\<lambda>n. DropIndex (collection sb) (member_str n ''keys'') (member_str n ''options'')) (dropIndexes sb)"
  from build_create_prefix [of "createIndexes sb" "collection sb" m]
  obtain k where k: "k \<le> length (createIndexes sb)"
    "snd (build_create (collection sb) (createIndexes sb) m) = m\<lparr>calls := calls m @ take k ?cs\<rparr>"
    "fst (build_create (collection sb) (createIndexes sb) m) = Inr () \<longleftrightarrow>
       k = length (createIndexes sb) \<and> (\<forall>c\<in>set ?cs. \<not> refuses m c)"
    by auto
  show ?thesis
  proof (cases "fst (build_create (collection sb) (createIndexes sb) m)")
    case (Inl e)
    then have "build sb m = (Inl e, m\<lparr>calls := calls m @ take k ?cs\<rparr>)"
      using k(2) by (cases "build_create (collection sb) (createIndexes sb) m") (simp add: build_def)
    moreover from Inl k(3) have "\<not> (k = length (createIndexes sb) \<and> (\<forall>c\<in>set ?cs. \<not> refuses m c))"
      by simp
    ultimately show ?thesis
      using k(1) by (intro exI [of _ k]) (auto simp: planned_def)
  next
    case (Inr u)
    let ?m = "m\<lparr>calls := calls m @ ?cs\<rparr>"
    from Inr k(3) have kk: "k = length (createIndexes sb)" and ok: "\<forall>c\<in>set ?cs. \<not> refuses m c"
      by simp_all
    from Inr k(2) kk have b: "build sb m = build_drop (collection sb) (dropIndexes sb) ?m"
      by (cases "build_create (collection sb) (createIndexes sb) m") (simp add: build_def)
    from build_drop_prefix [of "dropIndexes sb" "collection sb" ?m]
    obtain j where j: "j \<le> length (dropIndexes sb)"
      "snd (build_drop (collection sb) (dropIndexes sb) ?m) = ?m\<lparr>calls := calls ?m @ take j ?ds\<rparr>"
      "fst (build_drop (collection sb) (dropIndexes sb) ?m) = Inr () \<longleftrightarrow>
         j = length (dropIndexes sb) \<and> (\<forall>c\<in>set ?ds. \<not> refuses ?m c)"
      by auto
    show ?thesis
      using j ok by (intro exI [of _ "length (createIndexes sb) + j"]) (auto simp: b planned_def)
  qed
qed

theorem build_in_order_no_rollback_witness:
  "fst (build sb0 store0) = Inr ()
   \<and> calls (snd (build sb0 store0))
       = [CreateIndex ''users'' (JObj [(''email'', JNum 1)]) (JObj [(''name'', JStr ''by_email'')]),
          DropIndex ''users'' JUndefined JUndefined]
   \<and> fst (build sb0 store_no_drop) = Inl (MongoError (DropIndex ''users'' JUndefined JUndefined))
   \<and> calls (snd (build sb0 store_no_drop))
       = [CreateIndex ''users'' (JObj [(''email'', JNum 1)]) (JObj [(''name'', JStr ''by_email'')])]"
proof -
  have p: "planned sb0 =
      [CreateIndex ''users'' (JObj [(''email'', JNum 1)]) (JObj [(''name'', JStr ''by_email'')]),
       DropIndex ''users'' JUndefined JUndefined]"
    by (simp add: planned_def sb0_def member_str_def)
  have f1: "fst (build sb0 store0) = Inr ()"
    by (simp add: build_def sb0_def store0_def issue_def member_str_def)
  have f2: "fst (build sb0 store_no_drop) = Inl (MongoError (DropIndex ''users'' JUndefined JUndefined))"
    by (simp add: build_def sb0_def store_no_drop_def issue_def member_str_def)
  from build_in_order_no_rollback [of sb0 store0] f1 p
  have c1: "calls (snd (build sb0 store0)) = calls store0 @ planned sb0"
    by auto
  have c2: "calls (snd (build sb0 store_no_drop))
       = [CreateIndex ''users'' (JObj [(''email'', JNum 1)]) (JObj [(''name'', JStr ''by_email'')])]"
    by (simp add: build_def sb0_def store_no_drop_def issue_def member_str_def)
  from f1 c1 f2 c2 p show ?thesis
    by (simp add: store0_def)
qed

text \<open>
  \<open>dropCollectionIfExists\<close> never drops: it leaves the collections of the store as
  they were and issues no drop call of its own, whether or not the collection exists.
\<close>

theorem dropCollectionIfExists_never_drops:
  "collections (snd (snd (dropCollectionIfExists db m n))) = collections m
   \<and> (DropCollection x \<notin> set (calls m) \<longrightarrow>
        DropCollection x \<notin> set (calls (snd (snd (dropCollectionIfExists db m n)))))"
  by (auto simp: dropCollectionIfExists_def connect_def MongoClient_connect_def issue_def
      listCollections_def includes_js_def
      split: option.splits prod.splits sum.splits if_splits)

theorem dropCollectionIfExists_never_drops_witness:
  "''users'' \<in> set (collections (store0\<lparr>collections := [''users'']\<rparr>))
   \<and> collections (snd (snd (dropCollectionIfExists db0 (store0\<lparr>collections := [''users'']\<rparr>) ''users'')))
       = [''users'']
   \<and> DropCollection ''users''
       \<notin> set (calls (snd (snd (dropCollectionIfExists db0 (store0\<lparr>collections := [''users'']\<rparr>) ''users''))))"
  using dropCollectionIfExists_never_drops
    [of db0 "store0\<lparr>collections := [''users'']\<rparr>" "''users''" "''users''"]
  by (simp add: store0_def)

text \<open>
  C10. Whenever \<open>hasCollection\<close> returns, it returns true; and it returns (true) as
  soon as the connection is there or can be established and the store answers the
  enumeration, whether or not a collection of that name exists: the lookup gives
  \<open>undefined\<close> when nothing is found, which is not \<open>null\<close>.
\<close>

theorem hasCollection_always_true:
  "(\<forall>b. fst (hasCollection db m n) = Inr b \<longrightarrow> b)
   \<and> ((connection db \<noteq> None \<or> \<not> refuses m (Connect (connectionString db)))
        \<and> \<not> refuses m ListCollections \<longrightarrow> fst (hasCollection db m n) = Inr True)"
proof (cases "connection db")
  case None
  then show ?thesis
    by (auto simp: hasCollection_def connect_def MongoClient_connect_def issue_def
        listCollections_def find_named_infos collection_info_def
        split: prod.splits sum.splits if_splits)
next
  case (Some c)
  then show ?thesis
    by (auto simp: hasCollection_def connect_def issue_def
        listCollections_def find_named_infos collection_info_def
        split: prod.splits sum.splits if_splits)
qed

theorem hasCollection_always_true_witness:
  "''ghosts'' \<notin> set (collections store0)
   \<and> \<not> refuses store0 (Connect (connectionString db0))
   \<and> \<not> refuses store0 ListCollections
   \<and> fst (hasCollection db0 store0 ''ghosts'') = Inr True"
  using hasCollection_always_true [of db0 store0 "''ghosts''"]
  by (simp add: store0_def)

section \<open>Properties of the connection\<close>

text \<open>
  C6. On a store that accepts the connection, \<open>n \<ge> 1\<close> calls of \<open>connect\<close> in a row
  all return the same connection, which the handle then holds. A handle that had none
  establishes it with exactly one driver call, and it is the one connection added to
  the open ones (none is removed); a handle that had one reuses it and leaves the
  store as it was. The connection stops being open by \<open>close\<close>.
\<close>

theorem connect_idempotent:
  assumes "\<not> refuses m (Connect (connectionString db))" and "0 < n"
  shows "\<exists>c db' m'. connect_times n db m = (replicate n (Inr c), db', m')
           \<and> connection db' = Some c
           \<and> (case connection db of
                 Some c0 \<Rightarrow> c = c0 \<and> db' = db \<and> m' = m
               | None \<Rightarrow>
                   live m' = live m @ [c]
                   \<and> established m' = Suc (established m)
                   \<and> calls m' = calls m @ [Connect (connectionString db)])
           \<and> c \<notin> set (live (snd (snd (close db' m'))))"
proof (cases "connection db")
  case (Some c0)
  then show ?thesis by (simp add: connect_times_connected close_def)
next
  case None
  from assms(2) obtain k where n: "n = Suc k" by (cases n) auto
  let ?c = "established m"
  let ?db = "db\<lparr>connection := Some ?c\<rparr>"
  let ?m = "m\<lparr>calls := calls m @ [Connect (connectionString db)],
        established := Suc (established m), live := live m @ [established m]\<rparr>"
  have "connect_times n db m = (replicate n (Inr ?c), ?db, ?m)"
    using None assms(1) by (simp add: n connect_fresh connect_times_connected)
  then show ?thesis using None by (simp add: close_def)
qed

theorem connect_idempotent_witness:
  "\<not> refuses store0 (Connect (connectionString db0)) \<and> (0::nat) < 3
   \<and> (\<exists>c db' m'. connect_times 3 db0 store0 = ([Inr c, Inr c, Inr c], db', m')
         \<and> connection db' = Some c \<and> live m' = [c] \<and> established m' = 1
         \<and> calls m' = [Connect ''mongodb://localhost:27017/test''])"
proof -
  have h: "\<not> refuses store0 (Connect (connectionString db0))"
    by (simp add: store0_def)
  have r: "replicate 3 x = [x, x, x]" for x :: "error + nat"
    by (simp add: numeral_3_eq_3)
  have d: "connection db0 = None" "live store0 = []" "established store0 = 0" "calls store0 = []"
    "connectionString db0 = ''mongodb://localhost:27017/test''"
    by (simp_all add: db0_def store0_def)
  from connect_idempotent [OF h, of 3]
  obtain c db' m' where "connect_times 3 db0 store0 = ([Inr c, Inr c, Inr c], db', m')"
    and "connection db' = Some c" and "live m' = [c]" and "established m' = 1"
    and "calls m' = [Connect ''mongodb://localhost:27017/test'']"
    by (auto simp: d r)
  with h show ?thesis by simp
qed

section \<open>Properties of the transactions and of the proxy\<close>

text \<open>
  The promise of \<open>beginTransaction\<close> is never rejected: \<open>reject\<close> is never called, and
  the rejection of the promise that \<open>transaction\<close> returned is discarded. It is
  resolved exactly when the library runs the callback, with the transaction handed to
  the callback.
\<close>

lemma beginTransaction_settles:
  "fst (beginTransaction db m) \<noteq> Rejected e"
  "fst (beginTransaction db m) = Resolved t \<longleftrightarrow> fst (fst (transaction m)) = Some t"
  by (auto simp: beginTransaction_def split: prod.splits option.splits)

text \<open>
  C1 (as amended). For a symbol and for the name \<open>inspect\<close> the access returns what the
  handle itself has under that key, \<open>undefined\<close> included, and creates no query
  builder. For every other name that the handle does not have, a new query builder
  replaces the handle's and the member is looked up on it: if it is a function, the
  ambient transaction, if there is one, is attached to the new builder and the
  function bound to the builder is returned; if it is not, the access fails with the
  error \<open>Database.<name> is not a function\<close> and nothing is attached.
\<close>

theorem get_pass_through:
  "(is_symbol name \<or> name = Name ''inspect'' \<longrightarrow>
      get lib db name = (Inr (target_member db name), db))
   \<and> (s \<noteq> ''inspect'' \<and> target_member db (Name s) = Value JUndefined
        \<and> is_function (member_mquery lib s) \<longrightarrow>
      get lib db (Name s) = (Inr (BoundTo s), db\<lparr>mquery := new_mquery\<lparr>qtrx := globalTrx db\<rparr>\<rparr>))
   \<and> (s \<noteq> ''inspect'' \<and> target_member db (Name s) = Value JUndefined
        \<and> \<not> is_function (member_mquery lib s) \<longrightarrow>
      get lib db (Name s) =
        (Inl (Error (''Database.'' @ s @ '' is not a function'')), db\<lparr>mquery := new_mquery\<rparr>))"
  by (auto simp: get_def query_def transacting_def new_mquery_def Let_def split: option.splits)

theorem get_pass_through_witness:
  "get lib0 (db0\<lparr>globalTrx := Some 7\<rparr>) (Symbol ''Symbol.iterator'')
      = (Inr (Value JUndefined), db0\<lparr>globalTrx := Some 7\<rparr>)
   \<and> get lib0 (db0\<lparr>globalTrx := Some 7\<rparr>) (Name ''where'')
      = (Inr (BoundTo ''where''), db0\<lparr>globalTrx := Some 7, mquery := new_mquery\<lparr>qtrx := Some 7\<rparr>\<rparr>)
   \<and> get lib0 (db0\<lparr>globalTrx := Some 7\<rparr>) (Name ''nothing'')
      = (Inl (Error ''Database.nothing is not a function''), db0\<lparr>globalTrx := Some 7\<rparr>)"
proof -
  let ?db = "db0\<lparr>globalTrx := Some 7\<rparr>"
  have a: "target_member ?db (Name ''where'') = Value JUndefined"
    "target_member ?db (Name ''nothing'') = Value JUndefined"
    "target_member ?db (Symbol ''Symbol.iterator'') = Value JUndefined"
    by (simp_all add: Database_methods_def Object_methods_def db0_def)
  have b: "is_function (member_mquery lib0 ''where'')" "\<not> is_function (member_mquery lib0 ''nothing'')"
    by (simp_all add: lib0_def)
  have c: "?db\<lparr>mquery := new_mquery\<rparr> = ?db"
    by (simp add: db0_def)
  from get_pass_through [of "Symbol ''Symbol.iterator''" lib0 ?db "''where''"]
    get_pass_through [of "Symbol ''Symbol.iterator''" lib0 ?db "''nothing''"] a b c
  show ?thesis by simp
qed

text \<open>
  C1 as it was stated fails at the name \<open>inspect\<close>: the handle has no such member and
  no query builder has it as a function, yet the access returns \<open>undefined\<close> and
  leaves the handle as it was, with no query builder created and no error.
\<close>

theorem get_inspect_counterexample:
  "target_member db0 (Name ''inspect'') = Value JUndefined
   \<and> \<not> is_function (member_mquery lib0 ''inspect'')
   \<and> get lib0 db0 (Name ''inspect'') = (Inr (Value JUndefined), db0)"
  by (simp add: get_def lib0_def Database_methods_def Object_methods_def)



section \<open>Properties of aggregation and pagination\<close>

text \<open>
  C4. When the connection is there or can be established, the collection handle is
  obtained (\<open>this.collectionName\<close>, read through the proxy) and the driver answers the
  pipeline with the groups \<open>result\<close> and no error: with a group key given (a
  non-empty string, which is what the code tests) \<open>aggregate\<close> returns the whole array
  of groups; with none it returns \<open>null\<close> when there is no group, and otherwise what
  the first group has under the aggregator's name.
\<close>

theorem aggregate_result_shape:
  assumes conn: "connect db m = (Inr c, db1, m1)"
    and coll: "get lib db1 (Name ''collectionName'') = (Inr h, db2)"
    and drv: "aggregate_driver lib h
               [JObj [(''$match'', JObj (conditions db2))],
                JObj [(''$group'', JObj (group_stage aggregator key groupBy))]] = Inr result"
  shows "(truthy_str groupBy \<longrightarrow>
            fst (aggregate lib db m aggregator key groupBy) = Inr (JArr (map JObj result)))
       \<and> (\<not> truthy_str groupBy \<and> result = [] \<longrightarrow>
            fst (aggregate lib db m aggregator key groupBy) = Inr JNull)
       \<and> (\<not> truthy_str groupBy \<and> result \<noteq> [] \<longrightarrow>
            fst (aggregate lib db m aggregator key groupBy) = Inr (field (hd result) aggregator))"
  by (simp add: aggregate_answered [OF conn coll drv])

theorem aggregate_result_shape_witness:
  "fst (aggregate lib0 (setCollection db0 ''users'') store0 ''sum'' (Some ''amount'') (Some ''userId''))
      = Inr (JArr [JObj [(''_id'', JNum 1), (''sum'', JNum 8)], JObj [(''_id'', JNum 2), (''sum'', JNum 4)]])
   \<and> fst (aggregate lib0 (setCollection db0 ''empty'') store0 ''count'' None None) = Inr JNull
   \<and> fst (aggregate lib0 (setCollection db0 ''users'') store0 ''count'' None None) = Inr (JNum 25)"
proof -
  have k: "conditions ((setCollection db0 c)\<lparr>connection := Some 0\<rparr>) = []" for c
    by (simp add: setCollection_def db0_def conditions_def new_mquery_def)
  have d1: "aggregate_driver lib0 (Value (JStr ''users''))
      [JObj [(''$match'', JObj (conditions ((setCollection db0 ''users'')\<lparr>connection := Some 0\<rparr>)))],
       JObj [(''$group'', JObj (group_stage ''sum'' (Some ''amount'') (Some ''userId'')))]]
      = Inr [[(''_id'', JNum 1), (''sum'', JNum 8)], [(''_id'', JNum 2), (''sum'', JNum 4)]]"
    by (simp add: lib0_def group_stage_def k)
  have d2: "aggregate_driver lib0 (Value (JStr ''empty''))
      [JObj [(''$match'', JObj (conditions ((setCollection db0 ''empty'')\<lparr>connection := Some 0\<rparr>)))],
       JObj [(''$group'', JObj (group_stage ''count'' None None))]] = Inr []"
    by (simp add: lib0_def)
  have d3: "aggregate_driver lib0 (Value (JStr ''users''))
      [JObj [(''$match'', JObj (conditions ((setCollection db0 ''users'')\<lparr>connection := Some 0\<rparr>)))],
       JObj [(''$group'', JObj (group_stage ''count'' None None))]]
      = Inr [[(''_id'', JNull), (''count'', JNum 25)]]"
    by (simp add: lib0_def group_stage_def k)
  from aggregate_result_shape [OF connect_users get_users d1]
    aggregate_result_shape [OF connect_users get_users d2]
    aggregate_result_shape [OF connect_users get_users d3]
  show ?thesis by (simp add: field_def)
qed

text \<open>
  C3 (as amended). When the connection is there or can be established, a collection is
  set, the driver answers the count pipeline with \<open>result\<close> and the collection's
  documents that match the conditions are \<open>docs\<close>: \<open>paginate\<close> takes the count from
  \<open>aggregate ('count')\<close> (\<open>null\<close> when there is no group); the rows it fetches are
  at most \<open>lim\<close> of \<open>docs\<close>, skipping exactly the first \<open>(page || 1) * lim\<close> of them,
  which is \<open>page * lim\<close> for a page other than 0 and \<open>lim\<close> when the page is 0 or
  left out; and it returns what \<open>makePaginateMeta\<close> makes of the count, the page and
  the limit, with the rows under \<open>data\<close>.
\<close>

theorem paginate_envelope:
  assumes conn: "connect db m = (Inr c, db1, m1)"
    and coll: "collectionName db = Some n"
    and cnt: "aggregate_driver lib (Value (JStr n))
               [JObj [(''$match'', JObj (conditions db))],
                JObj [(''$group'', JObj (group_stage ''count'' None None))]] = Inr result"
    and docs: "matching lib (Value (JStr n)) (conditions db) = Inr docs"
    and skip: "k = (case page of None \<Rightarrow> 1 | Some p \<Rightarrow> if p = 0 then 1 else p) * lim"
  shows "\<exists>countByQuery rows.
           aggregate lib db1 m1 ''count'' None None = (Inr countByQuery, db1, m1)
           \<and> countByQuery = (if result = [] then JNull else field (hd result) ''count'')
           \<and> rows = take (nat lim) (drop (nat k) docs)
           \<and> length rows \<le> nat lim
           \<and> paginate lib db m page lim =
               (Inr (AList.update ''data'' (JArr (map JObj rows))
                      (makePaginateMeta lib countByQuery page lim)),
                db1\<lparr>mquery := (mquery db)\<lparr>qcollection := Some (Value (JStr n)),
                                           qlimit := Some lim, qskip := Some k\<rparr>\<rparr>,
                m1)"
proof -
  let ?q = "(mquery db)\<lparr>qcollection := Some (Value (JStr n)), qlimit := Some lim, qskip := Some k\<rparr>"
  let ?rows = "take (nat lim) (drop (nat k) docs)"
  from connect_result [OF conn] coll have c1: "connection db1 = Some c"
    and n1: "collectionName db1 = Some n" and q1: "mquery db1 = mquery db"
    and k1: "conditions db1 = conditions db"
    by (simp_all add: conditions_def)
  have conn1: "connect db1 m1 = (Inr c, db1, m1)"
    using c1 by (rule connect_connected)
  note coll1 = get_collectionName [OF n1, of lib]
  from cnt k1 have cnt1: "aggregate_driver lib (Value (JStr n))
               [JObj [(''$match'', JObj (conditions db1))],
                JObj [(''$group'', JObj (group_stage ''count'' None None))]] = Inr result"
    by simp
  have agg: "aggregate lib db1 m1 ''count'' None None =
      (Inr (if result = [] then JNull else field (hd result) ''count''), db1, m1)"
    using aggregate_answered [OF conn1 coll1 cnt1] by simp
  have p1: "page_or_1 page * lim = k"
    using skip by (cases page) simp_all
  have rows: "find_mquery lib ?q = Inr ?rows"
    using docs by (simp add: find_mquery_def conditions_def)
  have "paginate lib db m page lim =
      (Inr (AList.update ''data'' (JArr (map JObj ?rows))
             (makePaginateMeta lib (if result = [] then JNull else field (hd result) ''count'') page lim)),
       db1\<lparr>mquery := ?q\<rparr>, m1)"
    using rows by (simp add: paginate_def conn coll1 agg q1 p1)
  moreover have "length ?rows \<le> nat lim"
    by simp
  ultimately show ?thesis using agg by blast
qed

theorem paginate_envelope_witness:
  "fst (paginate lib0 (setCollection db0 ''users'') store0 (Some 2) 10)
      = Inr [(''total'', JNum 25), (''page'', JNum 2), (''perPage'', JNum 10),
             (''data'', JArr (map JObj (map (\<lambda>i. [(''_id'', JNum (int i))]) [21..<26])))]
   \<and> length (map (\<lambda>i. [(''_id'', JNum (int i))]) [21..<26]) \<le> nat 10
   \<and> mquery (fst (snd (paginate lib0 (setCollection db0 ''users'') store0 (Some 2) 10)))
      = \<lparr>qconditions = [], qcollection = Some (Value (JStr ''users'')), qlimit = Some 10,
         qskip = Some 20, qtrx = None\<rparr>"
proof -
  let ?db = "setCollection db0 ''users''"
  let ?docs = "map (\<lambda>i. [(''_id'', JNum (int i))]) [1..<26]"
  have n: "collectionName ?db = Some ''users''"
    by (simp add: setCollection_def)
  have k: "conditions ?db = []"
    by (simp add: setCollection_def db0_def conditions_def new_mquery_def)
  have d: "aggregate_driver lib0 (Value (JStr ''users''))
      [JObj [(''$match'', JObj (conditions ?db))],
       JObj [(''$group'', JObj (group_stage ''count'' None None))]]
      = Inr [[(''_id'', JNull), (''count'', JNum 25)]]"
    by (simp add: lib0_def group_stage_def k)
  have r: "matching lib0 (Value (JStr ''users'')) (conditions ?db) = Inr ?docs"
    by (simp add: lib0_def)
  have s: "(20::int) = (case Some 2 of None \<Rightarrow> 1 | Some p \<Rightarrow> if p = 0 then 1 else p) * 10"
    by simp
  have t: "take (nat 10) (drop (nat 20) ?docs) = map (\<lambda>i. [(''_id'', JNum (int i))]) [21..<26]"
    by (simp add: drop_map take_map)
  have q: "mquery ?db = new_mquery"
    by (simp add: setCollection_def db0_def)
  from paginate_envelope [OF connect_users n d r s]
  obtain countByQuery rows
    where cq: "countByQuery = field (hd [[(''_id'', JNull), (''count'', JNum 25)]]) ''count''"
      and rw: "rows = take (nat 10) (drop (nat 20) ?docs)"
      and le: "length rows \<le> nat 10"
      and pg: "paginate lib0 ?db store0 (Some 2) 10 =
               (Inr (AList.update ''data'' (JArr (map JObj rows))
                      (makePaginateMeta lib0 countByQuery (Some 2) 10)),
                (?db\<lparr>connection := Some 0\<rparr>)
                  \<lparr>mquery := (mquery ?db)\<lparr>qcollection := Some (Value (JStr ''users'')),
                                           qlimit := Some 10, qskip := Some 20\<rparr>\<rparr>,
                store0\<lparr>calls := [Connect ''mongodb://localhost:27017/test''],
                       established := Suc 0, live := [0]\<rparr>)"
    by auto
  from cq have cq': "countByQuery = JNum 25"
    by (simp add: field_def)
  from rw t have rw': "rows = map (\<lambda>i. [(''_id'', JNum (int i))]) [21..<26]"
    by simp
  have m: "makePaginateMeta lib0 (JNum 25) (Some 2) 10
      = [(''total'', JNum 25), (''page'', JNum 2), (''perPage'', JNum 10)]"
    by (simp add: lib0_def)
  from le rw' have w2: "length (map (\<lambda>i. [(''_id'', JNum (int i))]) [21..<26]) \<le> nat 10"
    by simp
  have w1: "fst (paginate lib0 ?db store0 (Some 2) 10)
      = Inr [(''total'', JNum 25), (''page'', JNum 2), (''perPage'', JNum 10),
             (''data'', JArr (map JObj (map (\<lambda>i. [(''_id'', JNum (int i))]) [21..<26])))]"
    unfolding pg cq' rw' m by simp
  have w3: "mquery (fst (snd (paginate lib0 ?db store0 (Some 2) 10)))
      = \<lparr>qconditions = [], qcollection = Some (Value (JStr ''users'')), qlimit = Some 10,
         qskip = Some 20, qtrx = None\<rparr>"
    unfolding pg by (simp add: q new_mquery_def)
  from w1 w2 w3 show ?thesis by blast
qed

text \<open>
  C3 as it was stated fails at page 0: with the limit 10 the skip that \<open>paginate\<close> asks
  for is 10, not \<open>0 * 10\<close>.
\<close>

theorem paginate_page_zero_counterexample:
  "qskip (mquery (fst (snd (paginate lib0 (setCollection db0 ''users'') store0 (Some 0) 10)))) = Some 10"
  by (simp add: paginate_def aggregate_def connect_def MongoClient_connect_def issue_def get_def
      setCollection_def db0_def store0_def lib0_def group_stage_def conditions_def new_mquery_def
      find_mquery_def)

end
